theory Spec2Isabelle
  imports Main
begin

section \<open>httpkit: the configuration record\<close>

text \<open>
  The repository holds two versions of the configuration unit of package \<^verbatim>\<open>httpkit\<close>:
  \<^verbatim>\<open>src/httpkit/config.go\<close>, and \<^verbatim>\<open>src/unnamed/part_000\<close>, which is the same text with a
  transport-security context added (two more fields in \<^verbatim>\<open>Config\<close>, one more option
  variant, \<^verbatim>\<open>WithTLS\<close>, and one more check at the end of \<^verbatim>\<open>Validate\<close>).
  The record of the second version extends the record of the first. \<^verbatim>\<open>Override\<close> and
  \<^verbatim>\<open>setDefaultZeroValues\<close> have the same text in both files and are modelled once, over
  any extension of the record. What differs is modelled twice; the names of the second
  version carry a prime.

  \<^verbatim>\<open>Port\<close> is a Go \<^verbatim>\<open>int\<close> and \<^verbatim>\<open>time.Duration\<close> an \<^verbatim>\<open>int64\<close> of nanoseconds. The code
  only compares these values with 0 and assigns them; it does no arithmetic on them, so
  nothing can wrap around and they are modelled as \<^typ>\<open>int\<close>.
\<close>

type_synonym Duration = int

definition Second :: Duration where
  "Second = 1000000000"

definition Minute :: Duration where
  "Minute = 60 * Second"

definition defaultPort :: int where
  "defaultPort = 8080"

definition defaultIdleTimeout :: Duration where
  "defaultIdleTimeout = 1 * Minute"

definition defaultReadTimeout :: Duration where
  "defaultReadTimeout = 5 * Second"

definition defaultWriteTimeout :: Duration where
  "defaultWriteTimeout = 10 * Second"

definition defaultShutdownTimeout :: Duration where
  "defaultShutdownTimeout = 10 * Second"

text \<open>
  A Go \<^verbatim>\<open>error\<close> is nil or a value: \<^typ>\<open>'e option\<close>, with \<^term>\<open>None\<close> for nil.
  \<^verbatim>\<open>errors.New\<close> makes a leaf error from a message, \<^verbatim>\<open>fmt.Errorf\<close> with \<^verbatim>\<open>%w\<close>
  a message around the error it wraps; \<^verbatim>\<open>PathError\<close> is what the file system reports
  (operation and path).
\<close>

datatype error =
    errors_New string
  | PathError string string
  | fmt_Errorf_w string error

record Config =
  Host :: string
  Port :: int
  IdleTimeout :: Duration
  ReadTimeout :: Duration
  WriteTimeout :: Duration
  ShutdownTimeout :: Duration

text \<open>The zero value of the struct (\<^verbatim>\<open>var cfg Config\<close>).\<close>

definition zeroConfig :: Config where
  "zeroConfig =
     \<lparr>Host = '''', Port = 0, IdleTimeout = 0, ReadTimeout = 0, WriteTimeout = 0,
      ShutdownTimeout = 0\<rparr>"

definition DefaultConfig :: Config where
  "DefaultConfig =
     \<lparr>Host = '''', Port = defaultPort, IdleTimeout = defaultIdleTimeout,
      ReadTimeout = defaultReadTimeout, WriteTimeout = defaultWriteTimeout,
      ShutdownTimeout = defaultShutdownTimeout\<rparr>"

subsection \<open>Override\<close>

text \<open>
  \<^verbatim>\<open>func (c *Config) Override(other Config)\<close>: six \<^verbatim>\<open>if\<close> statements in sequence, each
  assigning one field of the receiver. The receiver is passed in and returned.
\<close>

definition Override :: "'a Config_scheme \<Rightarrow> 'a Config_scheme \<Rightarrow> 'a Config_scheme" where
  "Override c other =
     (let c = (if Host other \<noteq> '''' then c\<lparr>Host := Host other\<rparr> else c);
          c = (if Port other \<noteq> 0 then c\<lparr>Port := Port other\<rparr> else c);
          c = (if IdleTimeout other \<noteq> 0 then c\<lparr>IdleTimeout := IdleTimeout other\<rparr> else c);
          c = (if ReadTimeout other \<noteq> 0 then c\<lparr>ReadTimeout := ReadTimeout other\<rparr> else c);
          c = (if WriteTimeout other \<noteq> 0 then c\<lparr>WriteTimeout := WriteTimeout other\<rparr> else c);
          c = (if ShutdownTimeout other \<noteq> 0
               then c\<lparr>ShutdownTimeout := ShutdownTimeout other\<rparr> else c)
      in c)"

subsection \<open>Defaults and validation\<close>

text \<open>\<^verbatim>\<open>func (c *Config) setDefaultZeroValues()\<close>: every test is \<^verbatim>\<open><= 0\<close>.\<close>

definition setDefaultZeroValues :: "'a Config_scheme \<Rightarrow> 'a Config_scheme" where
  "setDefaultZeroValues c =
     (let c = (if Port c \<le> 0 then c\<lparr>Port := defaultPort\<rparr> else c);
          c = (if IdleTimeout c \<le> 0 then c\<lparr>IdleTimeout := defaultIdleTimeout\<rparr> else c);
          c = (if ReadTimeout c \<le> 0 then c\<lparr>ReadTimeout := defaultReadTimeout\<rparr> else c);
          c = (if WriteTimeout c \<le> 0 then c\<lparr>WriteTimeout := defaultWriteTimeout\<rparr> else c);
          c = (if ShutdownTimeout c \<le> 0
               then c\<lparr>ShutdownTimeout := defaultShutdownTimeout\<rparr> else c)
      in c)"

text \<open>
  \<^verbatim>\<open>func (c *Config) Validate() error\<close> of \<^verbatim>\<open>config.go\<close>. It mutates the receiver (the
  defaults) and returns the error: the model returns both.
\<close>

definition Validate :: "Config \<Rightarrow> Config \<times> error option" where
  "Validate c0 =
     (let c = setDefaultZeroValues c0 in
      if Port c \<le> 0 then (c, Some (errors_New ''port must be greater than 0''))
      else if IdleTimeout c \<le> 0
        then (c, Some (errors_New ''idle timeout must be greater than 0''))
      else if ReadTimeout c \<le> 0
        then (c, Some (errors_New ''read timeout must be greater than 0''))
      else if WriteTimeout c \<le> 0
        then (c, Some (errors_New ''write timeout must be greater than 0''))
      else if ShutdownTimeout c \<le> 0
        then (c, Some (errors_New ''shutdown timeout must be greater than 0''))
      else (c, None))"

subsection \<open>Options\<close>

text \<open>
  The interface \<^verbatim>\<open>ConfigOption\<close> has eight implementations in \<^verbatim>\<open>config.go\<close>, one struct
  each: a tagged union. \<^verbatim>\<open>applyToConfig\<close> dispatches on the variant; the \<^verbatim>\<open>range\<close>
  loop of the composite is \<open>applyEach\<close>.
\<close>

datatype ConfigOption =
    hostOption string
  | portOption int
  | idleTimeoutOption Duration
  | readTimeoutOption Duration
  | writeTimeoutOption Duration
  | shutdownTimeoutOption Duration
  | configOption Config
  | configOptions "ConfigOption list"

definition WithHost :: "string \<Rightarrow> ConfigOption" where
  "WithHost v = hostOption v"

definition WithPort :: "int \<Rightarrow> ConfigOption" where
  "WithPort v = portOption v"

definition WithIdleTimeout :: "Duration \<Rightarrow> ConfigOption" where
  "WithIdleTimeout v = idleTimeoutOption v"

definition WithReadTimeout :: "Duration \<Rightarrow> ConfigOption" where
  "WithReadTimeout v = readTimeoutOption v"

definition WithWriteTimeout :: "Duration \<Rightarrow> ConfigOption" where
  "WithWriteTimeout v = writeTimeoutOption v"

definition WithShutdownTimeout :: "Duration \<Rightarrow> ConfigOption" where
  "WithShutdownTimeout v = shutdownTimeoutOption v"

definition WithConfig :: "Config \<Rightarrow> ConfigOption" where
  "WithConfig v = configOption v"

definition WithConfigOptions :: "ConfigOption list \<Rightarrow> ConfigOption" where
  "WithConfigOptions v = configOptions v"

fun applyToConfig :: "ConfigOption \<Rightarrow> Config \<Rightarrow> Config"
  and applyEach :: "ConfigOption list \<Rightarrow> Config \<Rightarrow> Config" where
  "applyToConfig (hostOption v) cfg = cfg\<lparr>Host := v\<rparr>"
| "applyToConfig (portOption v) cfg = cfg\<lparr>Port := v\<rparr>"
| "applyToConfig (idleTimeoutOption v) cfg = cfg\<lparr>IdleTimeout := v\<rparr>"
| "applyToConfig (readTimeoutOption v) cfg = cfg\<lparr>ReadTimeout := v\<rparr>"
| "applyToConfig (writeTimeoutOption v) cfg = cfg\<lparr>WriteTimeout := v\<rparr>"
| "applyToConfig (shutdownTimeoutOption v) cfg = cfg\<lparr>ShutdownTimeout := v\<rparr>"
| "applyToConfig (configOption v) cfg = Override cfg v"
| "applyToConfig (configOptions vs) cfg = applyEach vs cfg"
| "applyEach [] cfg = cfg"
| "applyEach (opt # rest) cfg = applyEach rest (applyToConfig opt cfg)"

text \<open>
  The options a composite holds, leaves only, depth first and in the order supplied.
  This definition is not in the source: it states the flattening that the
  specification compares the composite with.
\<close>

fun leafOptions :: "ConfigOption \<Rightarrow> ConfigOption list" where
  "leafOptions (configOptions vs) = concat (map leafOptions vs)"
| "leafOptions opt = [opt]"


fun isComposite :: "ConfigOption \<Rightarrow> bool" where
  "isComposite (configOptions vs) = True"
| "isComposite opt = False"

subsection \<open>The bound address\<close>

text \<open>
  \<^verbatim>\<open>func (c Config) Addr() string { return net.JoinHostPort(c.Host, strconv.Itoa(c.Port)) }\<close>.
  The two library functions are written out as the Go library defines them: the
  decimal numeral of an integer, and brackets around a host that contains a colon.
\<close>

function uitoa :: "nat \<Rightarrow> string" where
  "uitoa n =
     (if n < 10 then [''0123456789'' ! n]
      else uitoa (n div 10) @ [''0123456789'' ! (n mod 10)])"
  by pat_completeness auto
termination
  by (relation "measure id") auto

definition Itoa :: "int \<Rightarrow> string" where
  "Itoa i = (if i < 0 then ''-'' @ uitoa (nat (- i)) else uitoa (nat i))"

definition JoinHostPort :: "string \<Rightarrow> string \<Rightarrow> string" where
  "JoinHostPort host port =
     (if CHR '':'' \<in> set host then ''['' @ host @ '']:'' @ port else host @ '':'' @ port)"

definition Addr :: "'a Config_scheme \<Rightarrow> string" where
  "Addr c = JoinHostPort (Host c) (Itoa (Port c))"

section \<open>httpkit: the configuration with a transport-security context\<close>

text \<open>
  \<^verbatim>\<open>src/unnamed/part_000\<close>. \<^verbatim>\<open>TLS *tls.Config\<close> is a pointer, nil or a context;
  \<^verbatim>\<open>tlsErr error\<close> is nil or the error kept from the construction of the context.
  Of \<^verbatim>\<open>tls.Config\<close> the record has the five fields that \<^verbatim>\<open>WithTLS\<close> sets.
\<close>

datatype ClientAuthType =
    NoClientCert
  | RequestClientCert
  | RequireAnyClientCert
  | VerifyClientCertIfGiven
  | RequireAndVerifyClientCert

datatype Certificate = Certificate string string

datatype CertPool = CertPool "string list"

definition NewCertPool :: CertPool where
  "NewCertPool = CertPool []"

definition VersionTLS12 :: nat where
  "VersionTLS12 = 771"

record tls_Config =
  ClientAuth :: ClientAuthType
  Certificates :: "Certificate list"
  ClientCAs :: CertPool
  MinVersion :: nat
  NextProtos :: "string list"

record Config' = Config +
  TLS :: "tls_Config option"
  tlsErr :: "error option"

definition zeroConfig' :: Config' where
  "zeroConfig' =
     \<lparr>Host = '''', Port = 0, IdleTimeout = 0, ReadTimeout = 0, WriteTimeout = 0,
      ShutdownTimeout = 0, TLS = None, tlsErr = None\<rparr>"

definition DefaultConfig' :: Config' where
  "DefaultConfig' =
     \<lparr>Host = '''', Port = defaultPort, IdleTimeout = defaultIdleTimeout,
      ReadTimeout = defaultReadTimeout, WriteTimeout = defaultWriteTimeout,
      ShutdownTimeout = defaultShutdownTimeout, TLS = None, tlsErr = None\<rparr>"

text \<open>
  \<^verbatim>\<open>Validate\<close> of \<^verbatim>\<open>part_000\<close>: the five checks of \<^verbatim>\<open>config.go\<close>, then
  \<^verbatim>\<open>if c.TLS != nil && c.tlsErr != nil\<close>, which wraps the kept error with \<^verbatim>\<open>%w\<close>.
\<close>

definition Validate' :: "Config' \<Rightarrow> Config' \<times> error option" where
  "Validate' c0 =
     (let c = setDefaultZeroValues c0 in
      if Port c \<le> 0 then (c, Some (errors_New ''port must be greater than 0''))
      else if IdleTimeout c \<le> 0
        then (c, Some (errors_New ''idle timeout must be greater than 0''))
      else if ReadTimeout c \<le> 0
        then (c, Some (errors_New ''read timeout must be greater than 0''))
      else if WriteTimeout c \<le> 0
        then (c, Some (errors_New ''write timeout must be greater than 0''))
      else if ShutdownTimeout c \<le> 0
        then (c, Some (errors_New ''shutdown timeout must be greater than 0''))
      else
        (case (TLS c, tlsErr c) of
           (Some t, Some e) \<Rightarrow>
             (c, Some (fmt_Errorf_w ''tls must be configured correctly if provided: '' e))
         | _ \<Rightarrow> (c, None)))"

text \<open>The nine option variants of \<^verbatim>\<open>part_000\<close>; \<^verbatim>\<open>tlsOption\<close> has two fields.\<close>

datatype ConfigOption' =
    hostOption' string
  | portOption' int
  | idleTimeoutOption' Duration
  | readTimeoutOption' Duration
  | writeTimeoutOption' Duration
  | shutdownTimeoutOption' Duration
  | tlsOption' "tls_Config option" "error option"
  | configOption' Config'
  | configOptions' "ConfigOption' list"

text \<open>
  \<^verbatim>\<open>WithTLS\<close> reads the credential files when the option is built. What the files hold
  is outside the program: the three library calls it makes are the fields of a
  credential source, each returning the error (\<open>Inl\<close>) or the value, and
  \<^verbatim>\<open>AppendCertsFromPEM\<close> the pool it filled and its \<^verbatim>\<open>ok\<close>.
\<close>

record CredentialSource =
  LoadX509KeyPair :: "string \<Rightarrow> string \<Rightarrow> error + Certificate"
  ReadFile :: "string \<Rightarrow> error + string"
  AppendCertsFromPEM :: "CertPool \<Rightarrow> string \<Rightarrow> CertPool \<times> bool"

definition WithTLS :: "CredentialSource \<Rightarrow> string \<Rightarrow> string \<Rightarrow> string \<Rightarrow> ConfigOption'" where
  "WithTLS io caFile ceFile keyFile =
     (case LoadX509KeyPair io ceFile keyFile of
        Inl err \<Rightarrow> tlsOption' None (Some err)
      | Inr ce \<Rightarrow>
          (case ReadFile io caFile of
             Inl err \<Rightarrow> tlsOption' None (Some err)
           | Inr ca \<Rightarrow>
               (let (pool, ok) = AppendCertsFromPEM io NewCertPool ca in
                if \<not> ok
                then tlsOption' None (Some (errors_New ''unable to append certs from PEM''))
                else tlsOption'
                  (Some \<lparr>ClientAuth = RequireAndVerifyClientCert, Certificates = [ce],
                         ClientCAs = pool, MinVersion = VersionTLS12,
                         NextProtos = [''h2'', ''http/1.1'']\<rparr>)
                  None)))"

fun applyToConfig' :: "ConfigOption' \<Rightarrow> Config' \<Rightarrow> Config'"
  and applyEach' :: "ConfigOption' list \<Rightarrow> Config' \<Rightarrow> Config'" where
  "applyToConfig' (hostOption' v) cfg = cfg\<lparr>Host := v\<rparr>"
| "applyToConfig' (portOption' v) cfg = cfg\<lparr>Port := v\<rparr>"
| "applyToConfig' (idleTimeoutOption' v) cfg = cfg\<lparr>IdleTimeout := v\<rparr>"
| "applyToConfig' (readTimeoutOption' v) cfg = cfg\<lparr>ReadTimeout := v\<rparr>"
| "applyToConfig' (writeTimeoutOption' v) cfg = cfg\<lparr>WriteTimeout := v\<rparr>"
| "applyToConfig' (shutdownTimeoutOption' v) cfg = cfg\<lparr>ShutdownTimeout := v\<rparr>"
| "applyToConfig' (tlsOption' v e) cfg = cfg\<lparr>TLS := v, tlsErr := e\<rparr>"
| "applyToConfig' (configOption' v) cfg = Override cfg v"
| "applyToConfig' (configOptions' vs) cfg = applyEach' vs cfg"
| "applyEach' [] cfg = cfg"
| "applyEach' (opt # rest) cfg = applyEach' rest (applyToConfig' opt cfg)"

text \<open>
  A credential source in which no file can be opened: every read fails with the
  file system's error for the path.
\<close>

definition unreadableFiles :: CredentialSource where
  "unreadableFiles =
     \<lparr>LoadX509KeyPair = (\<lambda>ceFile keyFile. Inl (PathError ''open'' ceFile)),
      ReadFile = (\<lambda>name. Inl (PathError ''open'' name)),
      AppendCertsFromPEM = (\<lambda>pool pem. (pool, False))\<rparr>"

section \<open>httpkit: Serve\<close>

text \<open>
  \<^verbatim>\<open>src/httpkit/httpkit.go\<close>. \<^verbatim>\<open>Serve\<close> builds the configuration from the options,
  validates it and returns the error if there is one; only then does it install the
  signal interception, launch the two tasks and wait for them. The model keeps the
  order of these statements: it returns the error that \<^verbatim>\<open>Serve\<close> returns and the list
  of the effects it performed, in program order. What the two tasks do once launched
  depends on the network, the handler and the signals; the error that \<^verbatim>\<open>eg.Wait()\<close>
  returns is therefore a parameter, a function of what was started. The context and the
  handler are opaque values that \<^verbatim>\<open>Serve\<close> passes on.

  The text of \<^verbatim>\<open>Serve\<close> is the same against either version of the configuration unit. It
  is modelled against the one with the transport-security context, the only one in
  which validation can fail.
\<close>

datatype Signal = SIGINT | SIGTERM

datatype 'h http_Server =
  http_Server (srvAddr: string) (srvHandler: 'h) (srvIdleTimeout: Duration)
    (srvReadTimeout: Duration) (srvWriteTimeout: Duration)

datatype ('ctx, 'h) effect =
    signal_NotifyContext 'ctx "Signal list"
  | errgroup_WithContext
  | Go_ListenAndServe "'h http_Server"
  | Go_Shutdown "'h http_Server" 'ctx Duration
  | eg_Wait
  | deferred_stop

definition withErrGroupNotifyContext :: "'ctx \<Rightarrow> ('ctx, 'h) effect list" where
  "withErrGroupNotifyContext ctx =
     [signal_NotifyContext ctx [SIGINT, SIGTERM], errgroup_WithContext]"

definition Serve ::
  "(('ctx, 'h) effect list \<Rightarrow> error option) \<Rightarrow> 'ctx \<Rightarrow> 'h \<Rightarrow> ConfigOption' list
     \<Rightarrow> error option \<times> ('ctx, 'h) effect list" where
  "Serve outcome ctx h opts =
     (let cfg = applyEach' opts zeroConfig';
          (cfg, err) = Validate' cfg
      in case err of
           Some e \<Rightarrow> (Some e, [])
         | None \<Rightarrow>
             (let srv = http_Server (Addr cfg) h (IdleTimeout cfg) (ReadTimeout cfg)
                          (WriteTimeout cfg);
                  started = withErrGroupNotifyContext ctx
                    @ [Go_ListenAndServe srv, Go_Shutdown srv ctx (ShutdownTimeout cfg)]
              in (outcome started, started @ [eg_Wait, deferred_stop])))"

section \<open>Helper facts\<close>

lemmas default_defs =
  Second_def Minute_def defaultPort_def defaultIdleTimeout_def defaultReadTimeout_def
  defaultWriteTimeout_def defaultShutdownTimeout_def

lemmas With_defs =
  WithHost_def WithPort_def WithIdleTimeout_def WithReadTimeout_def WithWriteTimeout_def
  WithShutdownTimeout_def WithConfig_def WithConfigOptions_def

lemma Override_fields:
  "Host (Override c p) = (if Host p \<noteq> '''' then Host p else Host c)"
  "Port (Override c p) = (if Port p \<noteq> 0 then Port p else Port c)"
  "IdleTimeout (Override c p) = (if IdleTimeout p \<noteq> 0 then IdleTimeout p else IdleTimeout c)"
  "ReadTimeout (Override c p) = (if ReadTimeout p \<noteq> 0 then ReadTimeout p else ReadTimeout c)"
  "WriteTimeout (Override c p) =
     (if WriteTimeout p \<noteq> 0 then WriteTimeout p else WriteTimeout c)"
  "ShutdownTimeout (Override c p) =
     (if ShutdownTimeout p \<noteq> 0 then ShutdownTimeout p else ShutdownTimeout c)"
  "Config.more (Override c p) = Config.more c"
  by (simp_all add: Override_def Let_def)

lemma Override_twice: "Override (Override c p) p = Override c p"
  by (rule Config.equality) (simp_all add: Override_fields)

text \<open>After the defaults are filled, the port and the four timeouts are positive.\<close>

lemma setDefaultZeroValues_positive:
  "0 < Port (setDefaultZeroValues c)"
  "0 < IdleTimeout (setDefaultZeroValues c)"
  "0 < ReadTimeout (setDefaultZeroValues c)"
  "0 < WriteTimeout (setDefaultZeroValues c)"
  "0 < ShutdownTimeout (setDefaultZeroValues c)"
  by (simp_all add: setDefaultZeroValues_def default_defs Let_def)

lemma setDefaultZeroValues_more:
  "Config.more (setDefaultZeroValues c) = Config.more c"
  by (simp add: setDefaultZeroValues_def Let_def)

text \<open>
  So none of the five numeric checks of \<open>Validate\<close> can fire: in \<^verbatim>\<open>config.go\<close>
  validation never fails, and in \<^verbatim>\<open>part_000\<close> it fails only on the transport-security
  check.
\<close>

lemma Validate_never_fails: "snd (Validate c) = None"
  using setDefaultZeroValues_positive [of c]
  by (simp add: Validate_def Let_def)

lemma Validate'_eq:
  "Validate' c =
     (setDefaultZeroValues c,
      case (TLS c, tlsErr c) of
        (Some t, Some e) \<Rightarrow>
          Some (fmt_Errorf_w ''tls must be configured correctly if provided: '' e)
      | _ \<Rightarrow> None)"
proof -
  have more: "TLS (setDefaultZeroValues c) = TLS c" "tlsErr (setDefaultZeroValues c) = tlsErr c"
    by (simp_all add: setDefaultZeroValues_def Let_def)
  show ?thesis
    using setDefaultZeroValues_positive [of c]
    by (simp add: Validate'_def Let_def more split: option.splits)
qed

lemma WithTLS_cases:
  "(\<exists>e. WithTLS io ca ce key = tlsOption' None (Some e))
   \<or> (\<exists>t. WithTLS io ca ce key = tlsOption' (Some t) None)"
  by (simp add: WithTLS_def split: sum.splits prod.splits)

lemma Validate'_after_WithTLS:
  "snd (Validate' (applyToConfig' (WithTLS io ca ce key) c)) = None"
  using WithTLS_cases [of io ca ce key]
  by (auto simp: Validate'_eq)

lemma applyEach_foldl: "applyEach os c = foldl (\<lambda>cfg opt. applyToConfig opt cfg) c os"
  by (induction os arbitrary: c) simp_all

lemma applyEach_append: "applyEach (xs @ ys) c = applyEach ys (applyEach xs c)"
  by (induction xs arbitrary: c) simp_all

lemma apply_leafOptions:
  "applyEach (leafOptions opt) c = applyToConfig opt c"
  "applyEach (concat (map leafOptions os)) c = applyEach os c"
  by (induction opt c and os c rule: applyToConfig_applyEach.induct)
    (simp_all add: applyEach_append)

lemma leafOptions_leaves: "filter isComposite (leafOptions opt) = []"
  by (induction opt rule: leafOptions.induct) (simp_all add: filter_concat)

section \<open>Validation\<close>

text \<open>
  C1. The claim: when a transport-security option whose construction failed has been
  applied to a configuration with valid port and durations, \<open>Validate\<close> returns an error
  that wraps the construction error. The code at such an input: with no credential file
  readable, \<open>WithTLS\<close> yields the option with a nil context and the file system's error;
  applied to the default configuration it stores both; and \<open>Validate\<close> returns nil,
  because its last check asks for a context that is not nil.
\<close>

theorem Validate_drops_failed_WithTLS:
  "WithTLS unreadableFiles ''ca.pem'' ''server.crt'' ''server.key''
     = tlsOption' None (Some (PathError ''open'' ''server.crt''))
   \<and> Validate' (applyToConfig'
        (WithTLS unreadableFiles ''ca.pem'' ''server.crt'' ''server.key'') DefaultConfig')
     = (DefaultConfig'\<lparr>tlsErr := Some (PathError ''open'' ''server.crt'')\<rparr>, None)"
  by (simp add: WithTLS_def unreadableFiles_def Validate'_def setDefaultZeroValues_def
      DefaultConfig'_def default_defs Let_def)

text \<open>
  C2. The claim: with port \<open>-1\<close>, \<open>Validate\<close> returns the port error. The code at the
  configuration whose only set field is the port \<open>-1\<close>: \<open>setDefaultZeroValues\<close> replaces
  the port by 8080 before the check, and \<open>Validate\<close> returns nil with the defaults.
\<close>

theorem Validate_port_minus_one:
  "Validate (zeroConfig\<lparr>Port := - 1\<rparr>) = (DefaultConfig, None)"
  by (simp add: Validate_def setDefaultZeroValues_def zeroConfig_def DefaultConfig_def
      default_defs Let_def)

text \<open>
  C3. Validating the configuration whose fields are all zero succeeds (the error is nil)
  and leaves exactly the built-in defaults: port 8080, idle timeout 60 s, read timeout
  5 s, write timeout 10 s, shutdown timeout 10 s (in nanoseconds), and the empty host.
\<close>

theorem Validate_zero_is_defaults:
  "Validate zeroConfig =
     (\<lparr>Host = '''', Port = 8080, IdleTimeout = 60000000000, ReadTimeout = 5000000000,
       WriteTimeout = 10000000000, ShutdownTimeout = 10000000000\<rparr>, None)
   \<and> fst (Validate zeroConfig) = DefaultConfig"
  by (simp add: Validate_def setDefaultZeroValues_def zeroConfig_def DefaultConfig_def
      default_defs Let_def)

text \<open>
  C4. If \<open>Validate\<close> returns nil, then in the configuration it leaves the port and the
  idle, read, write and shutdown timeouts are each strictly positive.
\<close>

theorem Validate_ok_positive:
  assumes "Validate' c = (c', None)"
  shows "0 < Port c' \<and> 0 < IdleTimeout c' \<and> 0 < ReadTimeout c' \<and> 0 < WriteTimeout c'
         \<and> 0 < ShutdownTimeout c'"
proof -
  from assms have "c' = setDefaultZeroValues c"
    by (simp add: Validate'_eq)
  then show ?thesis
    by (simp add: setDefaultZeroValues_positive)
qed

theorem Validate_ok_positive_witness:
  "Validate' (zeroConfig'\<lparr>Host := ''localhost'', Port := 443, ReadTimeout := - 3\<rparr>)
     = (DefaultConfig'\<lparr>Host := ''localhost'', Port := 443\<rparr>, None)
   \<and> 0 < Port (DefaultConfig'\<lparr>Host := ''localhost'', Port := 443\<rparr>)
   \<and> 0 < IdleTimeout (DefaultConfig'\<lparr>Host := ''localhost'', Port := 443\<rparr>)
   \<and> 0 < ReadTimeout (DefaultConfig'\<lparr>Host := ''localhost'', Port := 443\<rparr>)
   \<and> 0 < WriteTimeout (DefaultConfig'\<lparr>Host := ''localhost'', Port := 443\<rparr>)
   \<and> 0 < ShutdownTimeout (DefaultConfig'\<lparr>Host := ''localhost'', Port := 443\<rparr>)"
proof -
  have run: "Validate' (zeroConfig'\<lparr>Host := ''localhost'', Port := 443, ReadTimeout := - 3\<rparr>)
     = (DefaultConfig'\<lparr>Host := ''localhost'', Port := 443\<rparr>, None)"
    by (simp add: Validate'_def setDefaultZeroValues_def zeroConfig'_def DefaultConfig'_def
        default_defs Let_def)
  from Validate_ok_positive [OF run] run show ?thesis
    by simp
qed

text \<open>
  C8. The claim: when several invariants are violated at once, \<open>Validate\<close> returns the
  error of the first in the order port, idle, read, write, shutdown, transport security.
  The code at the configuration with port \<open>-1\<close> and idle timeout \<open>-1\<close>, where the port
  error is the first: both fields are replaced by their defaults before any check, and
  \<open>Validate\<close> returns nil.
\<close>

theorem Validate_two_violations:
  "Validate' (zeroConfig'\<lparr>Port := - 1, IdleTimeout := - 1\<rparr>) = (DefaultConfig', None)"
  by (simp add: Validate'_def setDefaultZeroValues_def zeroConfig'_def DefaultConfig'_def
      default_defs Let_def)

section \<open>Override\<close>

text \<open>
  C5. \<open>Override c p\<close> takes each of the six fields from the patch \<open>p\<close> exactly when that
  field of \<open>p\<close> is not the zero value (the empty string, the integer 0, the duration 0),
  and keeps the field of \<open>c\<close> otherwise; and overriding a second time with the same patch
  changes nothing.
\<close>

theorem Override_sparse_idempotent:
  fixes c p :: Config
  shows
  "Host (Override c p) = (if Host p = '''' then Host c else Host p)
   \<and> Port (Override c p) = (if Port p = 0 then Port c else Port p)
   \<and> IdleTimeout (Override c p) = (if IdleTimeout p = 0 then IdleTimeout c else IdleTimeout p)
   \<and> ReadTimeout (Override c p) = (if ReadTimeout p = 0 then ReadTimeout c else ReadTimeout p)
   \<and> WriteTimeout (Override c p) =
       (if WriteTimeout p = 0 then WriteTimeout c else WriteTimeout p)
   \<and> ShutdownTimeout (Override c p) =
       (if ShutdownTimeout p = 0 then ShutdownTimeout c else ShutdownTimeout p)
   \<and> Override (Override c p) p = Override c p"
  by (simp add: Override_fields Override_twice)

text \<open>
  C10. \<open>Override c p\<close> leaves the transport-security fields of \<open>c\<close>, the context and the
  kept construction error, as they were, whatever \<open>p\<close> holds: the patch covers the host,
  the port and the four timeouts only.
\<close>

theorem Override_keeps_transport_security:
  fixes c p :: Config'
  shows "TLS (Override c p) = TLS c \<and> tlsErr (Override c p) = tlsErr c"
  by (simp add: Override_def Let_def)

section \<open>Options\<close>

text \<open>
  C6. Applying the composite option built from a list is applying the options of the
  list one after the other, in the order supplied. Nested composites are entered depth
  first in that order: the composite equals the application, in order, of its leaf
  options, none of which is a composite. An option appended to the list is applied to
  the result of those before it, so a later setter decides its field; a later
  whole-configuration patch decides the fields it sets.
\<close>

theorem composite_flattening:
  "applyToConfig (WithConfigOptions os) c = foldl (\<lambda>cfg opt. applyToConfig opt cfg) c os
   \<and> applyToConfig (WithConfigOptions os) c
       = foldl (\<lambda>cfg opt. applyToConfig opt cfg) c (leafOptions (WithConfigOptions os))
   \<and> filter isComposite (leafOptions (WithConfigOptions os)) = []
   \<and> applyToConfig (WithConfigOptions (os @ [opt])) c
       = applyToConfig opt (applyToConfig (WithConfigOptions os) c)
   \<and> Host (applyToConfig (WithConfigOptions (os @ [WithHost h])) c) = h
   \<and> Port (applyToConfig (WithConfigOptions (os @ [WithPort n])) c) = n
   \<and> IdleTimeout (applyToConfig (WithConfigOptions (os @ [WithIdleTimeout d])) c) = d
   \<and> ReadTimeout (applyToConfig (WithConfigOptions (os @ [WithReadTimeout d])) c) = d
   \<and> WriteTimeout (applyToConfig (WithConfigOptions (os @ [WithWriteTimeout d])) c) = d
   \<and> ShutdownTimeout (applyToConfig (WithConfigOptions (os @ [WithShutdownTimeout d])) c) = d
   \<and> Port (applyToConfig (WithConfigOptions (os @ [WithConfig p])) c)
       = (if Port p = 0 then Port (applyToConfig (WithConfigOptions os) c) else Port p)"
proof -
  have seq: "applyToConfig (configOptions vs) c = foldl (\<lambda>cfg opt. applyToConfig opt cfg) c vs"
    for vs
    by (simp add: applyEach_foldl)
  have flat: "applyToConfig (configOptions os) c
      = foldl (\<lambda>cfg opt. applyToConfig opt cfg) c (leafOptions (configOptions os))"
    using apply_leafOptions(1) [of "configOptions os" c]
    by (simp only: applyEach_foldl)
  have leaves: "filter isComposite (leafOptions (configOptions os)) = []"
    by (rule leafOptions_leaves)
  have last: "applyToConfig (configOptions (os @ [x])) c
      = applyToConfig x (applyToConfig (configOptions os) c)" for x
    by (simp add: applyEach_append)
  show ?thesis
    unfolding With_defs
    by (intro conjI, rule seq, rule flat, rule leaves, rule last)
      (simp_all add: applyEach_append Override_fields)
qed

text \<open>
  C7. Applying a scalar setter option built from a value \<open>v\<close> assigns \<open>v\<close> to its field
  (and touches no other field), whatever \<open>v\<close> is. With the zero value the field is
  overwritten all the same, where the whole-configuration patch with that field zero
  keeps the target's value.
\<close>

theorem scalar_setters_unconditional:
  "applyToConfig (WithHost h) c = c\<lparr>Host := h\<rparr>
   \<and> applyToConfig (WithPort n) c = c\<lparr>Port := n\<rparr>
   \<and> applyToConfig (WithIdleTimeout d) c = c\<lparr>IdleTimeout := d\<rparr>
   \<and> applyToConfig (WithReadTimeout d) c = c\<lparr>ReadTimeout := d\<rparr>
   \<and> applyToConfig (WithWriteTimeout d) c = c\<lparr>WriteTimeout := d\<rparr>
   \<and> applyToConfig (WithShutdownTimeout d) c = c\<lparr>ShutdownTimeout := d\<rparr>
   \<and> Host (applyToConfig (WithHost '''') c) = ''''
   \<and> Port (applyToConfig (WithPort 0) c) = 0
   \<and> IdleTimeout (applyToConfig (WithIdleTimeout 0) c) = 0
   \<and> ReadTimeout (applyToConfig (WithReadTimeout 0) c) = 0
   \<and> WriteTimeout (applyToConfig (WithWriteTimeout 0) c) = 0
   \<and> ShutdownTimeout (applyToConfig (WithShutdownTimeout 0) c) = 0
   \<and> Host (applyToConfig (WithConfig (p\<lparr>Host := ''''\<rparr>)) c) = Host c
   \<and> Port (applyToConfig (WithConfig (p\<lparr>Port := 0\<rparr>)) c) = Port c
   \<and> IdleTimeout (applyToConfig (WithConfig (p\<lparr>IdleTimeout := 0\<rparr>)) c) = IdleTimeout c
   \<and> ReadTimeout (applyToConfig (WithConfig (p\<lparr>ReadTimeout := 0\<rparr>)) c) = ReadTimeout c
   \<and> WriteTimeout (applyToConfig (WithConfig (p\<lparr>WriteTimeout := 0\<rparr>)) c) = WriteTimeout c
   \<and> ShutdownTimeout (applyToConfig (WithConfig (p\<lparr>ShutdownTimeout := 0\<rparr>)) c)
       = ShutdownTimeout c"
  by (simp add: With_defs Override_fields)

section \<open>Serve\<close>

text \<open>
  C9. When the configuration composed from the options fails validation, \<open>Serve\<close>
  returns that validation error and has performed no effect: no signal interception was
  installed, no listener bound and no task launched. This holds for every context,
  handler and outcome of the tasks.
\<close>

theorem Serve_invalid_starts_nothing:
  assumes "snd (Validate' (applyEach' opts zeroConfig')) = Some e"
  shows "Serve outcome ctx h opts = (Some e, [])"
  using assms
  by (cases "Validate' (applyEach' opts zeroConfig')") (simp add: Serve_def Let_def)

theorem Serve_invalid_starts_nothing_witness:
  "snd (Validate' (applyEach'
       [tlsOption'
          (Some \<lparr>ClientAuth = RequireAndVerifyClientCert, Certificates = [],
                 ClientCAs = NewCertPool, MinVersion = VersionTLS12, NextProtos = []\<rparr>)
          (Some (errors_New ''unable to append certs from PEM''))]
       zeroConfig'))
     = Some (fmt_Errorf_w ''tls must be configured correctly if provided: ''
         (errors_New ''unable to append certs from PEM''))
   \<and> Serve (\<lambda>started. None) () ()
       [tlsOption'
          (Some \<lparr>ClientAuth = RequireAndVerifyClientCert, Certificates = [],
                 ClientCAs = NewCertPool, MinVersion = VersionTLS12, NextProtos = []\<rparr>)
          (Some (errors_New ''unable to append certs from PEM''))]
     = (Some (fmt_Errorf_w ''tls must be configured correctly if provided: ''
         (errors_New ''unable to append certs from PEM'')), [])"
proof -
  have fails: "snd (Validate' (applyEach'
       [tlsOption'
          (Some \<lparr>ClientAuth = RequireAndVerifyClientCert, Certificates = [],
                 ClientCAs = NewCertPool, MinVersion = VersionTLS12, NextProtos = []\<rparr>)
          (Some (errors_New ''unable to append certs from PEM''))]
       zeroConfig'))
     = Some (fmt_Errorf_w ''tls must be configured correctly if provided: ''
         (errors_New ''unable to append certs from PEM''))"
    by (simp add: Validate'_def setDefaultZeroValues_def zeroConfig'_def default_defs Let_def)
  from Serve_invalid_starts_nothing [OF fails, of "\<lambda>started. None" "()" "()"] fails
  show ?thesis
    by simp
qed

end
